theory Spec2Isabelle
  imports Main "HOL-Library.Word"
begin

section \<open>The arena: data model\<close>

text \<open>
  \<^verbatim>\<open>size_t\<close> and the two \<^verbatim>\<open>char*\<close> members are 64-bit machine values: addition,
  subtraction and multiplication wrap modulo \<open>2 ^ 64\<close>, comparisons are unsigned.

  An allocator object is the triple of its members \<^verbatim>\<open>memory_\<close>, \<^verbatim>\<open>next_\<close> and
  \<^verbatim>\<open>allocations_\<close>, here the fields \<open>memory_m\<close>, \<open>next_m\<close> and \<open>allocations_m\<close>
  (a field name cannot end in an underscore). \<open>memory_m\<close> is the address
  of the first byte of the array \<^verbatim>\<open>char memory_[N]\<close>; the bytes stored there are not
  modelled, since no member function reads or writes them. The template parameter
  \<^verbatim>\<open>N\<close> is passed to every function that mentions it, and \<^verbatim>\<open>sizeof(T)\<close> is the
  argument \<open>sizeof_T\<close> of \<open>alloc\<close>.

  Pointer arithmetic is that of a flat 64-bit address space. C++ defines
  \<^verbatim>\<open>next_ + size\<close> only while the sum stays inside the array (or one past its end);
  the capacity check of \<open>alloc\<close> evaluates the sum for every request, so the model
  gives it the value the machine computes. The lemmas below say for which requests the
  sum is exact (\<open>up_safe\<close>, \<open>down_safe\<close>); for those the two readings agree.

  The first component of what \<open>alloc\<close> gives records the \<^verbatim>\<open>return\<close> statement the
  call left through: \<open>None\<close> for \<^verbatim>\<open>return nullptr\<close>, \<open>Some p\<close> for \<^verbatim>\<open>return result\<close>
  with the pointer value \<open>p\<close>. The pointer the caller holds is \<open>returned\<close> of it, and
  the null pointer is the address 0: \<open>Some 0\<close> is a call that moved the cursor,
  counted an allocation and handed the caller a null pointer. That cannot happen while
  the array is not at address 0 and the cursor is not below it
  (\<open>alloc_returned_nonnull\<close>, \<open>down_alloc_returned_nonnull\<close>).
\<close>

type_synonym size_t = "64 word"

record arena =
  memory_m :: size_t
  next_m :: size_t
  allocations_m :: size_t

section \<open>BumpAllocator (task1.hpp): the cursor moves upward\<close>

text \<open>The constructor: \<^verbatim>\<open>next_(memory_), allocations_(0)\<close>, for an object whose array
  lies at address \<open>base\<close>.\<close>

definition BumpAllocator :: "size_t \<Rightarrow> arena" where
  "BumpAllocator base = \<lparr>memory_m = base, next_m = base, allocations_m = 0\<rparr>"

text \<open>\<^verbatim>\<open>T* alloc(size_t n = 1)\<close>. The result is \<open>None\<close> for \<^verbatim>\<open>return nullptr\<close> and
  \<open>Some result\<close> for \<^verbatim>\<open>return result\<close>, paired with the object after the call.\<close>

definition alloc :: "size_t \<Rightarrow> size_t \<Rightarrow> size_t \<Rightarrow> arena \<Rightarrow> size_t option \<times> arena" where
  "alloc N sizeof_T n a =
    (let sz = sizeof_T * n in
     if next_m a + sz > memory_m a + N then (None, a)
     else (let result = next_m a;
               a1 = a\<lparr>next_m := next_m a + sz\<rparr>;
               a2 = a1\<lparr>allocations_m := allocations_m a1 + 1\<rparr>
           in (Some result, a2)))"

text \<open>\<^verbatim>\<open>void dealloc()\<close>.\<close>

definition dealloc :: "arena \<Rightarrow> arena" where
  "dealloc a =
    (if allocations_m a > 0 then
       (let a1 = a\<lparr>allocations_m := allocations_m a - 1\<rparr>
        in if allocations_m a1 = 0 then a1\<lparr>next_m := memory_m a1\<rparr> else a1)
     else a)"

definition capacity :: "size_t \<Rightarrow> size_t" where
  "capacity N = N"

definition allocations :: "arena \<Rightarrow> size_t" where
  "allocations a = allocations_m a"

text \<open>\<^verbatim>\<open>return N - (next_ - memory_)\<close>: the pointer difference converts to \<^verbatim>\<open>size_t\<close>.\<close>

definition remaining_space :: "size_t \<Rightarrow> arena \<Rightarrow> size_t" where
  "remaining_space N a = N - (next_m a - memory_m a)"

section \<open>BumpDownAllocator (task3.cpp): the cursor moves downward\<close>

text \<open>The class has a constructor, \<open>alloc\<close> and \<open>dealloc\<close>, and no other member
  function. (\<^verbatim>\<open>BumpUpAllocator\<close> of the same file derives from \<^verbatim>\<open>BumpAllocator\<close> and adds
  nothing.)\<close>

definition BumpDownAllocator :: "size_t \<Rightarrow> size_t \<Rightarrow> arena" where
  "BumpDownAllocator N base = \<lparr>memory_m = base, next_m = base + N, allocations_m = 0\<rparr>"

definition down_alloc :: "size_t \<Rightarrow> size_t \<Rightarrow> size_t \<Rightarrow> arena \<Rightarrow> size_t option \<times> arena" where
  "down_alloc N sizeof_T n a =
    (let sz = sizeof_T * n in
     if next_m a - sz < memory_m a then (None, a)
     else (let a1 = a\<lparr>next_m := next_m a - sz\<rparr>;
               a2 = a1\<lparr>allocations_m := allocations_m a1 + 1\<rparr>
           in (Some (next_m a2), a2)))"

definition down_dealloc :: "size_t \<Rightarrow> arena \<Rightarrow> arena" where
  "down_dealloc N a =
    (if allocations_m a > 0 then
       (let a1 = a\<lparr>allocations_m := allocations_m a - 1\<rparr>
        in if allocations_m a1 = 0 then a1\<lparr>next_m := memory_m a1 + N\<rparr> else a1)
     else a)"

section \<open>The pointer a caller receives\<close>

text \<open>The value of the \<^verbatim>\<open>T*\<close> that \<open>alloc\<close> returns: 0, the null pointer, for
  \<^verbatim>\<open>return nullptr\<close>, and the value of \<^verbatim>\<open>result\<close> (or of \<^verbatim>\<open>next_\<close> in the downward
  class) otherwise.\<close>

definition returned :: "size_t option \<Rightarrow> size_t" where
  "returned r = (case r of None \<Rightarrow> 0 | Some result \<Rightarrow> result)"

section \<open>Call sequences\<close>

text \<open>A request is the pair \<open>(sizeof_T, n)\<close> of one call \<^verbatim>\<open>alloc<T>(n)\<close>. \<open>allocs\<close> makes
  the requests in order and gives \<open>None\<close> as soon as one of them returns
  \<^verbatim>\<open>nullptr\<close>: \<open>allocs N reqs a = Some a'\<close> says that every request succeeded.\<close>

fun allocs :: "size_t \<Rightarrow> (size_t \<times> size_t) list \<Rightarrow> arena \<Rightarrow> arena option" where
  "allocs N [] a = Some a"
| "allocs N ((sizeof_T, n) # reqs) a =
    (case alloc N sizeof_T n a of
       (None, a1) \<Rightarrow> None
     | (Some p, a1) \<Rightarrow> allocs N reqs a1)"

fun down_allocs :: "size_t \<Rightarrow> (size_t \<times> size_t) list \<Rightarrow> arena \<Rightarrow> arena option" where
  "down_allocs N [] a = Some a"
| "down_allocs N ((sizeof_T, n) # reqs) a =
    (case down_alloc N sizeof_T n a of
       (None, a1) \<Rightarrow> None
     | (Some p, a1) \<Rightarrow> down_allocs N reqs a1)"

text \<open>A caller's program: any sequence of calls. \<open>run\<close> returns what each
  \<open>alloc\<close> returned, in order, and the object after the last call.\<close>

datatype call = Alloc size_t size_t | Dealloc

fun run :: "size_t \<Rightarrow> call list \<Rightarrow> arena \<Rightarrow> size_t option list \<times> arena" where
  "run N [] a = ([], a)"
| "run N (Alloc sizeof_T n # cs) a =
    (case alloc N sizeof_T n a of
       (r, a1) \<Rightarrow> (case run N cs a1 of (rs, a2) \<Rightarrow> (r # rs, a2)))"
| "run N (Dealloc # cs) a = run N cs (dealloc a)"

fun down_run :: "size_t \<Rightarrow> call list \<Rightarrow> arena \<Rightarrow> size_t option list \<times> arena" where
  "down_run N [] a = ([], a)"
| "down_run N (Alloc sizeof_T n # cs) a =
    (case down_alloc N sizeof_T n a of
       (r, a1) \<Rightarrow> (case down_run N cs a1 of (rs, a2) \<Rightarrow> (r # rs, a2)))"
| "down_run N (Dealloc # cs) a = down_run N cs (down_dealloc N a)"

text \<open>The public member functions of the two classes.\<close>

datatype member = M_alloc | M_dealloc | M_capacity | M_allocations | M_remaining_space

definition members_BumpAllocator :: "member list" where
  "members_BumpAllocator = [M_alloc, M_dealloc, M_capacity, M_allocations, M_remaining_space]"

definition members_BumpDownAllocator :: "member list" where
  "members_BumpDownAllocator = [M_alloc, M_dealloc]"

section \<open>Well-formed objects and requests\<close>

text \<open>The array lies inside the address space, and the cursor inside the array (or one
  past its end).\<close>

definition in_arena :: "size_t \<Rightarrow> arena \<Rightarrow> bool" where
  "in_arena N a =
    (unat (memory_m a) + unat N < 2 ^ 64 \<and> memory_m a \<le> next_m a \<and> next_m a \<le> memory_m a + N)"

text \<open>A request of \<open>sz\<close> bytes whose pointer arithmetic cannot wrap: upward, the end of
  the array plus \<open>sz\<close> is an address; downward, \<open>sz\<close> is at most the address of the
  array.\<close>

definition up_safe :: "size_t \<Rightarrow> size_t \<Rightarrow> size_t \<Rightarrow> bool" where
  "up_safe N base sz = (unat base + unat N + unat sz < 2 ^ 64)"

definition down_safe :: "size_t \<Rightarrow> size_t \<Rightarrow> bool" where
  "down_safe base sz = (unat sz \<le> unat base)"

fun safe_call :: "size_t \<Rightarrow> size_t \<Rightarrow> size_t \<Rightarrow> call \<Rightarrow> bool" where
  "safe_call N bu bd (Alloc sizeof_T n) = (up_safe N bu (sizeof_T * n) \<and> down_safe bd (sizeof_T * n))"
| "safe_call N bu bd Dealloc = True"

text \<open>The same for a program that is run on the upward allocator alone.\<close>

fun up_safe_call :: "size_t \<Rightarrow> size_t \<Rightarrow> call \<Rightarrow> bool" where
  "up_safe_call N base (Alloc sizeof_T n) = up_safe N base (sizeof_T * n)"
| "up_safe_call N base Dealloc = True"

text \<open>A request that takes at least one byte and cannot wrap the upward pointer
  sum.\<close>

fun nonzero_safe :: "size_t \<Rightarrow> size_t \<Rightarrow> size_t \<times> size_t \<Rightarrow> bool" where
  "nonzero_safe N base (sizeof_T, n) = (up_safe N base (sizeof_T * n) \<and> sizeof_T * n \<noteq> 0)"

text \<open>The state \<^verbatim>\<open>Empty\<close> of the specification: a counter at zero goes with a cursor at
  its initial position.\<close>

definition empty_reset :: "arena \<Rightarrow> bool" where
  "empty_reset a = (allocations_m a \<noteq> 0 \<or> next_m a = memory_m a)"

text \<open>The relation between an upward and a downward object that have received the same
  calls: both cursors are inside their arrays, the counters agree, and the bytes left
  above the upward cursor are as many as the bytes left below the downward cursor.\<close>

definition sim :: "size_t \<Rightarrow> size_t \<Rightarrow> size_t \<Rightarrow> arena \<Rightarrow> arena \<Rightarrow> bool" where
  "sim N bu bd u d =
    (memory_m u = bu \<and> memory_m d = bd \<and> in_arena N u \<and> in_arena N d
     \<and> allocations_m u = allocations_m d
     \<and> remaining_space N u = next_m d - memory_m d)"

section \<open>Word arithmetic read as natural numbers\<close>

lemma unat_add64:
  "unat (x + s) = (if unat x + unat s < 2 ^ 64 then unat x + unat s else unat x + unat s - 2 ^ 64)"
  for x s :: size_t
  using unat_plus_if' [of x s] by simp

lemma unat_sub64:
  "unat (x - s) = (if unat s \<le> unat x then unat x - unat s else unat x + 2 ^ 64 - unat s)"
  for x s :: size_t
  using unat_sub_if_size [of x s] by (simp add: word_size)

lemma unat_lt64: "unat x < 2 ^ 64" for x :: size_t
  using unsigned_less [of x] by simp

lemmas word_nat = word_le_nat_alt word_less_nat_alt unat_add64 unat_sub64

lemma up_check_exact:
  fixes b x N s :: size_t
  assumes "unat b + unat N < 2 ^ 64" "b \<le> x" "x \<le> b + N" "unat b + unat N + unat s < 2 ^ 64"
  shows "(x + s > b + N) = (unat (N - (x - b)) < unat s)"
  using assms unat_lt64 [of x] unat_lt64 [of s] by (auto simp add: word_nat split: if_splits)

lemma down_check_exact:
  fixes b x N s :: size_t
  assumes "unat b + unat N < 2 ^ 64" "b \<le> x" "x \<le> b + N" "unat s \<le> unat b"
  shows "(x - s < b) = (unat (x - b) < unat s)"
  using assms unat_lt64 [of x] unat_lt64 [of s] by (auto simp add: word_nat split: if_splits)

lemma up_move_exact:
  fixes b x N s :: size_t
  assumes "unat b + unat N < 2 ^ 64" "b \<le> x" "x \<le> b + N" "\<not> x + s > b + N"
    and "unat b + unat N + unat s < 2 ^ 64"
  shows "b \<le> x + s \<and> x + s \<le> b + N \<and> unat (N - (x + s - b)) + unat s = unat (N - (x - b))"
  using assms unat_lt64 [of x] unat_lt64 [of s] by (auto simp add: word_nat split: if_splits)

lemma down_move_exact:
  fixes b x N s :: size_t
  assumes "unat b + unat N < 2 ^ 64" "b \<le> x" "x \<le> b + N" "\<not> x - s < b" "unat s \<le> unat b"
  shows "b \<le> x - s \<and> x - s \<le> b + N \<and> unat (x - s - b) + unat s = unat (x - b)"
  using assms unat_lt64 [of x] unat_lt64 [of s] by (auto simp add: word_nat split: if_splits)

section \<open>One call\<close>

lemma alloc_None_unchanged: "fst (alloc N sizeof_T n a) = None \<Longrightarrow> snd (alloc N sizeof_T n a) = a"
  by (simp add: alloc_def Let_def split: if_splits)

lemma down_alloc_None_unchanged:
  "fst (down_alloc N sizeof_T n a) = None \<Longrightarrow> snd (down_alloc N sizeof_T n a) = a"
  by (simp add: down_alloc_def Let_def split: if_splits)

lemma alloc_fails_iff:
  assumes "in_arena N a" "up_safe N (memory_m a) (sizeof_T * n)"
  shows "(fst (alloc N sizeof_T n a) = None) = (unat (remaining_space N a) < unat (sizeof_T * n))"
  using assms up_check_exact [of "memory_m a" N "next_m a" "sizeof_T * n"]
  by (simp add: alloc_def Let_def in_arena_def up_safe_def remaining_space_def)

lemma down_alloc_fails_iff:
  assumes "in_arena N a" "down_safe (memory_m a) (sizeof_T * n)"
  shows "(fst (down_alloc N sizeof_T n a) = None) = (unat (next_m a - memory_m a) < unat (sizeof_T * n))"
  using assms down_check_exact [of "memory_m a" N "next_m a" "sizeof_T * n"]
  by (simp add: down_alloc_def Let_def in_arena_def down_safe_def)

lemma alloc_success:
  assumes "in_arena N a" "up_safe N (memory_m a) (sizeof_T * n)" "fst (alloc N sizeof_T n a) \<noteq> None"
  shows "in_arena N (snd (alloc N sizeof_T n a))"
    and "unat (remaining_space N (snd (alloc N sizeof_T n a))) + unat (sizeof_T * n)
           = unat (remaining_space N a)"
  using assms up_move_exact [of "memory_m a" N "next_m a" "sizeof_T * n"]
  by (simp_all add: alloc_def Let_def in_arena_def up_safe_def remaining_space_def split: if_splits)

lemma down_alloc_success:
  assumes "in_arena N a" "down_safe (memory_m a) (sizeof_T * n)"
    and "fst (down_alloc N sizeof_T n a) \<noteq> None"
  shows "in_arena N (snd (down_alloc N sizeof_T n a))"
    and "unat (next_m (snd (down_alloc N sizeof_T n a)) - memory_m a) + unat (sizeof_T * n)
           = unat (next_m a - memory_m a)"
  using assms down_move_exact [of "memory_m a" N "next_m a" "sizeof_T * n"]
  by (simp_all add: down_alloc_def Let_def in_arena_def down_safe_def split: if_splits)

lemma in_arena_dealloc: "in_arena N a \<Longrightarrow> in_arena N (dealloc a)"
  by (auto simp add: dealloc_def Let_def in_arena_def word_nat split: if_splits)

lemma in_arena_down_dealloc: "in_arena N a \<Longrightarrow> in_arena N (down_dealloc N a)"
  by (auto simp add: down_dealloc_def Let_def in_arena_def word_nat split: if_splits)

lemma in_arena_BumpAllocator: "unat base + unat N < 2 ^ 64 \<Longrightarrow> in_arena N (BumpAllocator base)"
  by (simp add: BumpAllocator_def in_arena_def word_nat)

lemma in_arena_BumpDownAllocator:
  "unat base + unat N < 2 ^ 64 \<Longrightarrow> in_arena N (BumpDownAllocator N base)"
  by (simp add: BumpDownAllocator_def in_arena_def word_nat)

text \<open>A call that leaves through \<^verbatim>\<open>return result\<close> hands the caller a pointer that is
  not null, as long as the array is not at address 0 and, upward, the cursor is not
  below the array.\<close>

lemma alloc_returned_nonnull:
  "memory_m a \<noteq> 0 \<Longrightarrow> memory_m a \<le> next_m a \<Longrightarrow> fst (alloc N sizeof_T n a) \<noteq> None \<Longrightarrow>
     returned (fst (alloc N sizeof_T n a)) \<noteq> 0"
  by (auto simp add: alloc_def Let_def returned_def split: if_splits)

lemma down_alloc_returned_nonnull:
  "memory_m a \<noteq> 0 \<Longrightarrow> fst (down_alloc N sizeof_T n a) \<noteq> None \<Longrightarrow>
     returned (fst (down_alloc N sizeof_T n a)) \<noteq> 0"
  by (auto simp add: down_alloc_def Let_def returned_def word_neq_0_conv split: if_splits)

lemma counter_incr: "c \<noteq> - 1 \<Longrightarrow> unat (c + 1) = unat c + 1" for c :: size_t
  by (metis Suc_eq_plus1 add.commute unatSuc eq_neg_iff_add_eq_0)

section \<open>The two directions, call by call\<close>

lemma alloc_memory: "memory_m (snd (alloc N sizeof_T n a)) = memory_m a"
  by (simp add: alloc_def Let_def)

lemma down_alloc_memory: "memory_m (snd (down_alloc N sizeof_T n a)) = memory_m a"
  by (simp add: down_alloc_def Let_def)

lemma dealloc_memory: "memory_m (dealloc a) = memory_m a"
  by (simp add: dealloc_def Let_def)

lemma down_dealloc_memory: "memory_m (down_dealloc N a) = memory_m a"
  by (simp add: down_dealloc_def Let_def)

lemma alloc_Some_state:
  "fst (alloc N sizeof_T n a) \<noteq> None \<Longrightarrow>
     alloc N sizeof_T n a =
       (Some (next_m a), a\<lparr>next_m := next_m a + sizeof_T * n, allocations_m := allocations_m a + 1\<rparr>)"
  by (simp add: alloc_def Let_def split: if_splits)

lemma down_alloc_Some_state:
  "fst (down_alloc N sizeof_T n a) \<noteq> None \<Longrightarrow>
     down_alloc N sizeof_T n a =
       (Some (next_m a - sizeof_T * n),
        a\<lparr>next_m := next_m a - sizeof_T * n, allocations_m := allocations_m a + 1\<rparr>)"
  by (simp add: down_alloc_def Let_def split: if_splits)

lemma sim_alloc:
  assumes "sim N bu bd u d" "up_safe N bu (sizeof_T * n)" "down_safe bd (sizeof_T * n)"
  shows "(fst (alloc N sizeof_T n u) = None) = (fst (down_alloc N sizeof_T n d) = None)"
    and "sim N bu bd (snd (alloc N sizeof_T n u)) (snd (down_alloc N sizeof_T n d))"
proof -
  from assms have mu: "memory_m u = bu" and md: "memory_m d = bd"
    and iu: "in_arena N u" and idn: "in_arena N d"
    and cnt: "allocations_m u = allocations_m d"
    and rem: "remaining_space N u = next_m d - memory_m d"
    by (simp_all add: sim_def)
  have fu: "(fst (alloc N sizeof_T n u) = None) = (unat (remaining_space N u) < unat (sizeof_T * n))"
    using iu assms(2) mu by (simp add: alloc_fails_iff)
  have fd: "(fst (down_alloc N sizeof_T n d) = None) = (unat (next_m d - memory_m d) < unat (sizeof_T * n))"
    using idn assms(3) md by (simp add: down_alloc_fails_iff)
  show same: "(fst (alloc N sizeof_T n u) = None) = (fst (down_alloc N sizeof_T n d) = None)"
    using fu fd rem by simp
  show "sim N bu bd (snd (alloc N sizeof_T n u)) (snd (down_alloc N sizeof_T n d))"
  proof (cases "fst (alloc N sizeof_T n u) = None")
    case True
    then have "fst (down_alloc N sizeof_T n d) = None" using same by simp
    then show ?thesis
      using True assms(1) by (simp add: alloc_None_unchanged down_alloc_None_unchanged)
  next
    case False
    then have dn: "fst (down_alloc N sizeof_T n d) \<noteq> None" using same by simp
    have "in_arena N (snd (alloc N sizeof_T n u))"
      using iu assms(2) mu False by (simp add: alloc_success(1))
    moreover have "in_arena N (snd (down_alloc N sizeof_T n d))"
      using idn assms(3) md dn by (simp add: down_alloc_success(1))
    moreover have "allocations_m (snd (alloc N sizeof_T n u))
        = allocations_m (snd (down_alloc N sizeof_T n d))"
      using cnt by (simp add: alloc_Some_state [OF False] down_alloc_Some_state [OF dn])
    moreover have "remaining_space N (snd (alloc N sizeof_T n u))
        = next_m (snd (down_alloc N sizeof_T n d)) - memory_m (snd (down_alloc N sizeof_T n d))"
    proof -
      have "remaining_space N (snd (alloc N sizeof_T n u)) = remaining_space N u - sizeof_T * n"
        by (simp add: alloc_Some_state [OF False] remaining_space_def algebra_simps)
      moreover have "next_m (snd (down_alloc N sizeof_T n d)) - memory_m (snd (down_alloc N sizeof_T n d))
          = next_m d - memory_m d - sizeof_T * n"
        by (simp add: down_alloc_Some_state [OF dn] algebra_simps)
      ultimately show ?thesis using rem by simp
    qed
    ultimately show ?thesis
      using mu md by (simp add: sim_def alloc_memory down_alloc_memory)
  qed
qed

lemma sim_dealloc:
  assumes "sim N bu bd u d"
  shows "sim N bu bd (dealloc u) (down_dealloc N d)"
  using assms in_arena_dealloc [of N u] in_arena_down_dealloc [of N d]
  by (auto simp add: sim_def dealloc_memory down_dealloc_memory)
     (simp_all add: dealloc_def down_dealloc_def Let_def remaining_space_def)

lemma sim_run:
  assumes "sim N bu bd u d" "list_all (safe_call N bu bd) cs"
  shows "map (\<lambda>r. r = None) (fst (run N cs u)) = map (\<lambda>r. r = None) (fst (down_run N cs d))
         \<and> sim N bu bd (snd (run N cs u)) (snd (down_run N cs d))"
  using assms
proof (induction cs arbitrary: u d)
  case Nil
  then show ?case by simp
next
  case (Cons c cs)
  show ?case
  proof (cases c)
    case (Alloc sizeof_T n)
    have safe: "up_safe N bu (sizeof_T * n)" "down_safe bd (sizeof_T * n)"
      and rest: "list_all (safe_call N bu bd) cs"
      using Cons.prems(2) Alloc by simp_all
    note step = sim_alloc [OF Cons.prems(1) safe]
    from Cons.IH [OF step(2) rest] step(1) show ?thesis
      by (simp add: Alloc case_prod_unfold)
  next
    case Dealloc
    have rest: "list_all (safe_call N bu bd) cs"
      using Cons.prems(2) by simp
    from Cons.IH [OF sim_dealloc [OF Cons.prems(1)] rest] show ?thesis
      by (simp add: Dealloc)
  qed
qed

lemma sim_init:
  assumes "unat bu + unat N < 2 ^ 64" "unat bd + unat N < 2 ^ 64"
  shows "sim N bu bd (BumpAllocator bu) (BumpDownAllocator N bd)"
  using assms in_arena_BumpAllocator [of bu N] in_arena_BumpDownAllocator [of bd N]
  by (simp add: sim_def) (simp add: BumpAllocator_def BumpDownAllocator_def remaining_space_def)

section \<open>Sequences of requests and of releases\<close>

lemma allocs_state:
  "allocs N reqs a = Some a' \<Longrightarrow>
     memory_m a' = memory_m a \<and> allocations_m a' = allocations_m a + of_nat (length reqs)"
proof (induction reqs arbitrary: a)
  case Nil
  then show ?case by simp
next
  case (Cons r reqs)
  obtain sizeof_T n where r: "r = (sizeof_T, n)" by (cases r)
  from Cons.prems r have ok: "fst (alloc N sizeof_T n a) \<noteq> None"
    and rest: "allocs N reqs (snd (alloc N sizeof_T n a)) = Some a'"
    by (auto split: prod.splits option.splits)
  from Cons.IH [OF rest] show ?case
    by (simp add: alloc_Some_state [OF ok])
qed

lemma down_allocs_state:
  "down_allocs N reqs a = Some a' \<Longrightarrow>
     memory_m a' = memory_m a \<and> allocations_m a' = allocations_m a + of_nat (length reqs)"
proof (induction reqs arbitrary: a)
  case Nil
  then show ?case by simp
next
  case (Cons r reqs)
  obtain sizeof_T n where r: "r = (sizeof_T, n)" by (cases r)
  from Cons.prems r have ok: "fst (down_alloc N sizeof_T n a) \<noteq> None"
    and rest: "down_allocs N reqs (snd (down_alloc N sizeof_T n a)) = Some a'"
    by (auto split: prod.splits option.splits)
  from Cons.IH [OF rest] show ?case
    by (simp add: down_alloc_Some_state [OF ok])
qed

lemma unat_pred: "unat (c :: size_t) = Suc k \<Longrightarrow> unat (c - 1) = k"
  by (simp add: unat_sub64 split: if_splits)

lemma deallocs_all:
  "unat (allocations_m s) = k \<Longrightarrow> 0 < k \<Longrightarrow>
     (dealloc ^^ k) s = s\<lparr>next_m := memory_m s, allocations_m := 0\<rparr>"
proof (induction k arbitrary: s)
  case 0
  then show ?case by simp
next
  case (Suc k)
  have pos: "allocations_m s > 0"
    using Suc.prems(1) by (simp add: word_less_nat_alt)
  have pred: "unat (allocations_m s - 1) = k"
    using Suc.prems(1) by (rule unat_pred)
  show ?case
  proof (cases "k = 0")
    case True
    then have "allocations_m s - 1 = 0" using pred by (simp add: unat_eq_0)
    then show ?thesis using True pos by (simp add: dealloc_def Let_def)
  next
    case False
    then have nz: "allocations_m s - 1 \<noteq> 0" using pred by (auto simp add: unat_eq_0)
    then have step: "dealloc s = s\<lparr>allocations_m := allocations_m s - 1\<rparr>"
      using pos by (simp add: dealloc_def Let_def)
    have "(dealloc ^^ Suc k) s = (dealloc ^^ k) (dealloc s)"
      by (simp add: funpow_swap1)
    also have "\<dots> = (s\<lparr>allocations_m := allocations_m s - 1\<rparr>)
        \<lparr>next_m := memory_m (s\<lparr>allocations_m := allocations_m s - 1\<rparr>), allocations_m := 0\<rparr>"
      unfolding step using Suc.IH [of "s\<lparr>allocations_m := allocations_m s - 1\<rparr>"] pred False
      by simp
    finally show ?thesis by simp
  qed
qed

lemma down_deallocs_all:
  "unat (allocations_m s) = k \<Longrightarrow> 0 < k \<Longrightarrow>
     (down_dealloc N ^^ k) s = s\<lparr>next_m := memory_m s + N, allocations_m := 0\<rparr>"
proof (induction k arbitrary: s)
  case 0
  then show ?case by simp
next
  case (Suc k)
  have pos: "allocations_m s > 0"
    using Suc.prems(1) by (simp add: word_less_nat_alt)
  have pred: "unat (allocations_m s - 1) = k"
    using Suc.prems(1) by (rule unat_pred)
  show ?case
  proof (cases "k = 0")
    case True
    then have "allocations_m s - 1 = 0" using pred by (simp add: unat_eq_0)
    then show ?thesis using True pos by (simp add: down_dealloc_def Let_def)
  next
    case False
    then have nz: "allocations_m s - 1 \<noteq> 0" using pred by (auto simp add: unat_eq_0)
    then have step: "down_dealloc N s = s\<lparr>allocations_m := allocations_m s - 1\<rparr>"
      using pos by (simp add: down_dealloc_def Let_def)
    have "(down_dealloc N ^^ Suc k) s = (down_dealloc N ^^ k) (down_dealloc N s)"
      by (simp add: funpow_swap1)
    also have "\<dots> = (s\<lparr>allocations_m := allocations_m s - 1\<rparr>)
        \<lparr>next_m := memory_m (s\<lparr>allocations_m := allocations_m s - 1\<rparr>) + N, allocations_m := 0\<rparr>"
      unfolding step using Suc.IH [of "s\<lparr>allocations_m := allocations_m s - 1\<rparr>"] pred False
      by simp
    finally show ?thesis by simp
  qed
qed

lemma unat_of_nat64: "k < 2 ^ 64 \<Longrightarrow> unat (of_nat k :: size_t) = k"
  by (simp add: unat_of_nat)

section \<open>Requests whose arithmetic is exact\<close>

lemma alloc_fails_iff_product:
  assumes "in_arena N a" "up_safe N (memory_m a) (sizeof_T * n)" "unat sizeof_T * unat n < 2 ^ 64"
  shows "(fst (alloc N sizeof_T n a) = None) = (unat (remaining_space N a) < unat sizeof_T * unat n)"
proof -
  have "unat (sizeof_T * n) = unat sizeof_T * unat n"
    using assms(3) unat_mult_lem [of sizeof_T n] by simp
  then show ?thesis using alloc_fails_iff [OF assms(1,2)] by simp
qed

lemma alloc_consumes_product:
  assumes "in_arena N a" "up_safe N (memory_m a) (sizeof_T * n)" "unat sizeof_T * unat n < 2 ^ 64"
    and "fst (alloc N sizeof_T n a) \<noteq> None"
  shows "unat (remaining_space N (snd (alloc N sizeof_T n a))) + unat sizeof_T * unat n
           = unat (remaining_space N a)"
proof -
  have "unat (sizeof_T * n) = unat sizeof_T * unat n"
    using assms(3) unat_mult_lem [of sizeof_T n] by simp
  then show ?thesis using alloc_success(2) [OF assms(1,2,4)] by simp
qed

lemma down_alloc_fails_iff_product:
  assumes "in_arena N a" "down_safe (memory_m a) (sizeof_T * n)" "unat sizeof_T * unat n < 2 ^ 64"
  shows "(fst (down_alloc N sizeof_T n a) = None)
           = (unat (next_m a - memory_m a) < unat sizeof_T * unat n)"
proof -
  have "unat (sizeof_T * n) = unat sizeof_T * unat n"
    using assms(3) unat_mult_lem [of sizeof_T n] by simp
  then show ?thesis using down_alloc_fails_iff [OF assms(1,2)] by simp
qed

lemma empty_reset_alloc:
  assumes "unat (allocations_m a) + 1 < 2 ^ 64"
  shows "empty_reset (snd (alloc N sizeof_T n a)) \<or> snd (alloc N sizeof_T n a) = a"
proof (cases "fst (alloc N sizeof_T n a) = None")
  case True
  then show ?thesis by (simp add: alloc_None_unchanged)
next
  case False
  have "unat (allocations_m a + 1) = unat (allocations_m a) + 1"
    using assms by (simp add: unat_add64)
  then have "allocations_m a + 1 \<noteq> 0" by (metis Suc_eq_plus1 nat.simps(3) unat_eq_0)
  then show ?thesis by (simp add: alloc_Some_state [OF False] empty_reset_def)
qed

lemma empty_reset_dealloc: "empty_reset a \<Longrightarrow> empty_reset (dealloc a)"
  by (auto simp add: empty_reset_def dealloc_def Let_def)

lemma alloc_count_le:
  "unat (allocations_m a) + 1 < 2 ^ 64 \<Longrightarrow>
     unat (allocations_m (snd (alloc N sizeof_T n a))) \<le> unat (allocations_m a) + 1"
  by (simp add: alloc_def Let_def unat_add64)

lemma dealloc_count_le: "unat (allocations_m (dealloc a)) \<le> unat (allocations_m a)"
  by (auto simp add: dealloc_def Let_def unat_sub64 word_less_nat_alt)

lemma run_invariant:
  assumes "in_arena N a" "empty_reset a" "unat (allocations_m a) + length cs < 2 ^ 64"
    and "list_all (up_safe_call N (memory_m a)) cs"
  shows "in_arena N (snd (run N cs a)) \<and> empty_reset (snd (run N cs a))"
  using assms
proof (induction cs arbitrary: a)
  case Nil
  then show ?case by simp
next
  case (Cons c cs)
  show ?case
  proof (cases c)
    case (Alloc sizeof_T n)
    let ?a1 = "snd (alloc N sizeof_T n a)"
    have safe: "up_safe N (memory_m a) (sizeof_T * n)"
      and rest: "list_all (up_safe_call N (memory_m ?a1)) cs"
      using Cons.prems(4) Alloc by (simp_all add: alloc_memory)
    have cnt: "unat (allocations_m a) + 1 < 2 ^ 64"
      using Cons.prems(3) by simp
    have i1: "in_arena N ?a1"
      using alloc_success(1) [OF Cons.prems(1) safe] alloc_None_unchanged [of N sizeof_T n a]
        Cons.prems(1) by (cases "fst (alloc N sizeof_T n a) = None") simp_all
    have e1: "empty_reset ?a1"
      using empty_reset_alloc [OF cnt, of N sizeof_T n] Cons.prems(2) by auto
    have c1: "unat (allocations_m ?a1) + length cs < 2 ^ 64"
      using alloc_count_le [OF cnt, of N sizeof_T n] Cons.prems(3) by simp
    from Cons.IH [OF i1 e1 c1 rest] show ?thesis
      by (simp add: Alloc case_prod_unfold)
  next
    case Dealloc
    have rest: "list_all (up_safe_call N (memory_m (dealloc a))) cs"
      using Cons.prems(4) by (simp add: dealloc_memory)
    have c1: "unat (allocations_m (dealloc a)) + length cs < 2 ^ 64"
      using dealloc_count_le [of a] Cons.prems(3) by simp
    from Cons.IH [OF in_arena_dealloc [OF Cons.prems(1)] empty_reset_dealloc [OF Cons.prems(2)] c1 rest]
    show ?thesis by (simp add: Dealloc)
  qed
qed

section \<open>Releasing fewer allocations than were made\<close>

lemma allocs_consume:
  assumes "in_arena N a" "allocs N reqs a = Some a'" "list_all (nonzero_safe N (memory_m a)) reqs"
  shows "in_arena N a' \<and> unat (remaining_space N a') + length reqs \<le> unat (remaining_space N a)"
  using assms
proof (induction reqs arbitrary: a)
  case Nil
  then show ?case by simp
next
  case (Cons r reqs)
  obtain sizeof_T n where r: "r = (sizeof_T, n)" by (cases r)
  let ?a1 = "snd (alloc N sizeof_T n a)"
  from Cons.prems(2) r have ok: "fst (alloc N sizeof_T n a) \<noteq> None"
    and rest: "allocs N reqs ?a1 = Some a'"
    by (auto split: prod.splits option.splits)
  have safe: "up_safe N (memory_m a) (sizeof_T * n)" and nz: "sizeof_T * n \<noteq> 0"
    and safes: "list_all (nonzero_safe N (memory_m ?a1)) reqs"
    using Cons.prems(3) r by (simp_all add: alloc_memory)
  have pos: "0 < unat (sizeof_T * n)"
    using nz by (simp add: unat_gt_0)
  note step = alloc_success [OF Cons.prems(1) safe ok]
  from Cons.IH [OF step(1) rest safes] step(2) pos show ?case by simp
qed

lemma deallocs_some:
  "j < unat (allocations_m s) \<Longrightarrow>
     next_m ((dealloc ^^ j) s) = next_m s \<and> memory_m ((dealloc ^^ j) s) = memory_m s
     \<and> unat (allocations_m ((dealloc ^^ j) s)) = unat (allocations_m s) - j"
proof (induction j arbitrary: s)
  case 0
  then show ?case by simp
next
  case (Suc j)
  have pos: "allocations_m s > 0"
    using Suc.prems by (simp add: word_less_nat_alt)
  have pred: "unat (allocations_m s - 1) = unat (allocations_m s) - 1"
    using Suc.prems by (simp add: unat_sub64)
  then have nz: "allocations_m s - 1 \<noteq> 0"
    using Suc.prems by (auto simp add: unat_eq_0 [symmetric] simp del: unat_eq_0)
  have step: "dealloc s = s\<lparr>allocations_m := allocations_m s - 1\<rparr>"
    using pos nz by (simp add: dealloc_def Let_def)
  have "(dealloc ^^ Suc j) s = (dealloc ^^ j) (dealloc s)"
    by (simp add: funpow_swap1)
  then show ?case
    using Suc.IH [of "s\<lparr>allocations_m := allocations_m s - 1\<rparr>"] pred Suc.prems step by simp
qed

lemma fewer_releases_keep_bytes:
  assumes "in_arena N a" "allocs N reqs a = Some a'" "j < length reqs"
    and "unat (allocations_m a) + length reqs < 2 ^ 64"
    and "list_all (nonzero_safe N (memory_m a)) reqs"
  shows "unat (remaining_space N ((dealloc ^^ j) a')) < unat (remaining_space N a)
         \<and> 0 < allocations ((dealloc ^^ j) a')"
proof -
  have cnt: "unat (allocations_m a') = unat (allocations_m a) + length reqs"
    using allocs_state [OF assms(2)] assms(4) by (simp add: unat_add64 unat_of_nat64)
  then have j: "j < unat (allocations_m a')" using assms(3) by simp
  note d = deallocs_some [OF j]
  have "remaining_space N ((dealloc ^^ j) a') = remaining_space N a'"
    using d by (simp add: remaining_space_def)
  moreover have "unat (remaining_space N a') < unat (remaining_space N a)"
    using allocs_consume [OF assms(1,2,5)] assms(3) by simp
  moreover have "0 < unat (allocations_m ((dealloc ^^ j) a'))"
    using d j by simp
  ultimately show ?thesis by (simp add: allocations_def word_less_nat_alt)
qed

section \<open>The counter is a 64-bit value\<close>

text \<open>Requests for no element never fail, and \<open>2 ^ 64\<close> of them bring
  \<^verbatim>\<open>allocations_\<close> back to the value it had.\<close>

lemma allocs_of_nothing:
  "next_m a \<le> memory_m a + N \<Longrightarrow>
     allocs N (replicate k (sizeof_T, 0)) a = Some (a\<lparr>allocations_m := allocations_m a + of_nat k\<rparr>)"
proof (induction k arbitrary: a)
  case 0
  then show ?case by simp
next
  case (Suc k)
  have step: "alloc N sizeof_T 0 a = (Some (next_m a), a\<lparr>allocations_m := allocations_m a + 1\<rparr>)"
    using Suc.prems by (simp add: alloc_def Let_def)
  show ?case
    using Suc.IH [of "a\<lparr>allocations_m := allocations_m a + 1\<rparr>"] Suc.prems
    by (simp add: step add.assoc)
qed

lemma counter_wraps:
  "next_m a \<le> memory_m a + N \<Longrightarrow> allocs N (replicate (2 ^ 64) (sizeof_T, 0)) a = Some a"
  using allocs_of_nothing [of a N "2 ^ 64" sizeof_T] by simp

section \<open>Offsets of the downward allocations as numbers\<close>

lemma down_offsets_exact:
  assumes "unat base + unat N < 2 ^ 64"
    and "down_safe base (s1 * n1)" "down_safe base (s2 * n2)"
    and "down_alloc N s1 n1 (BumpDownAllocator N base) = (Some q1, d1)"
    and "down_alloc N s2 n2 d1 = (Some q2, d2)"
  shows "unat (q2 - base) + unat (s1 * n1) + unat (s2 * n2) = unat N
         \<and> unat (q1 - base) + unat (s1 * n1) = unat N"
proof -
  let ?d0 = "BumpDownAllocator N base"
  have i0: "in_arena N ?d0" using assms(1) by (rule in_arena_BumpDownAllocator)
  have m0: "memory_m ?d0 = base" and n0: "unat (next_m ?d0 - memory_m ?d0) = unat N"
    by (simp_all add: BumpDownAllocator_def)
  have ok1: "fst (down_alloc N s1 n1 ?d0) \<noteq> None" using assms(4) by simp
  have s1: "down_safe (memory_m ?d0) (s1 * n1)" using assms(2) m0 by simp
  note st1 = down_alloc_success [OF i0 s1 ok1]
  have d1: "d1 = snd (down_alloc N s1 n1 ?d0)" and q1: "q1 = next_m d1"
    using assms(4) down_alloc_Some_state [OF ok1] by auto
  have m1: "memory_m d1 = base" using d1 m0 by (simp add: down_alloc_memory)
  have ok2: "fst (down_alloc N s2 n2 d1) \<noteq> None" using assms(5) by simp
  have s2: "down_safe (memory_m d1) (s2 * n2)" using assms(3) m1 by simp
  have i1: "in_arena N d1" using st1(1) d1 by simp
  note st2 = down_alloc_success [OF i1 s2 ok2]
  have q2: "q2 = next_m (snd (down_alloc N s2 n2 d1))"
    using assms(5) down_alloc_Some_state [OF ok2] by auto
  from st1(2) st2(2) n0 m0 m1 d1 q1 q2 show ?thesis by simp
qed

section \<open>The claims\<close>

subsection \<open>C1: overflow of the size computation\<close>

text \<open>
  Claim C1: whenever the mathematical product \<open>elementSize * count\<close> overflows
  \<^verbatim>\<open>size_t\<close>, \<open>allocate\<close> fails; it does not wrap the product and take the wrapped value
  as the requested length.

  The code computes \<^verbatim>\<open>sizeof(T) * n\<close> in \<^verbatim>\<open>size_t\<close> and checks the space for the
  wrapped value. For \<^verbatim>\<open>alloc<int>(4611686018427387905)\<close> on a fresh 16-byte allocator
  the product is \<open>2 ^ 64 + 4\<close>; both classes take 4 bytes and return a pointer.
\<close>

theorem alloc_size_overflow_wraps:
  "unat (4 :: size_t) * unat (2 ^ 62 + 1 :: size_t) = 2 ^ 64 + 4
   \<and> alloc 16 4 (2 ^ 62 + 1) (BumpAllocator 4096)
       = (Some 4096, \<lparr>memory_m = 4096, next_m = 4100, allocations_m = 1\<rparr>)
   \<and> down_alloc 16 4 (2 ^ 62 + 1) (BumpDownAllocator 16 4096)
       = (Some 4108, \<lparr>memory_m = 4096, next_m = 4108, allocations_m = 1\<rparr>)"
  by (simp add: alloc_def down_alloc_def BumpAllocator_def BumpDownAllocator_def Let_def)

subsection \<open>C2: exhaustion\<close>

text \<open>
  Claim C2: for \<open>elementSize > 0\<close> and \<open>count \<ge> 1\<close>, \<open>allocate\<close> fails if and only if
  the mathematical product \<open>sz * n\<close> exceeds \<open>remainingSpace()\<close>; a failed call changes
  nothing.

  A failed call changes nothing (\<open>alloc_None_unchanged\<close>), and for a product below
  \<open>2 ^ 64\<close> the call fails exactly when the product exceeds the remaining space
  (\<open>alloc_fails_iff_product\<close>). The equivalence is lost where the product wraps: a
  4-byte allocator that has given out its 4 bytes has no space left, the request
  \<^verbatim>\<open>alloc<int>(4611686018427387904)\<close> asks for \<open>2 ^ 64\<close> bytes, and both classes return
  a pointer and count one more allocation.
\<close>

theorem alloc_succeeds_beyond_remaining:
  "alloc 4 4 1 (BumpAllocator 4096)
       = (Some 4096, \<lparr>memory_m = 4096, next_m = 4100, allocations_m = 1\<rparr>)
   \<and> remaining_space 4 \<lparr>memory_m = 4096, next_m = 4100, allocations_m = 1\<rparr> = 0
   \<and> unat (4 :: size_t) * unat (2 ^ 62 :: size_t) = 2 ^ 64
   \<and> alloc 4 4 (2 ^ 62) \<lparr>memory_m = 4096, next_m = 4100, allocations_m = 1\<rparr>
       = (Some 4100, \<lparr>memory_m = 4096, next_m = 4100, allocations_m = 2\<rparr>)
   \<and> down_alloc 4 4 1 (BumpDownAllocator 4 4096)
       = (Some 4096, \<lparr>memory_m = 4096, next_m = 4096, allocations_m = 1\<rparr>)
   \<and> down_alloc 4 4 (2 ^ 62) \<lparr>memory_m = 4096, next_m = 4096, allocations_m = 1\<rparr>
       = (Some 4096, \<lparr>memory_m = 4096, next_m = 4096, allocations_m = 2\<rparr>)"
  by (simp add: alloc_def down_alloc_def BumpAllocator_def BumpDownAllocator_def
      remaining_space_def Let_def)

subsection \<open>C3: bulk reset\<close>

text \<open>
  Claim C3: from every reachable state, \<open>k\<close> successful allocations followed by \<open>k\<close>
  releases leave \<open>remainingSpace()\<close> as it was before the sequence and
  \<open>allocationCount()\<close> at 0.

  The counter is shared by all allocations, so this holds from a state with no live
  allocation and not from one that has some. In a 100-byte allocator with one live
  \<^verbatim>\<open>int\<close> (96 bytes left), allocating a \<^verbatim>\<open>double\<close> and releasing once leaves one live
  allocation and 88 bytes.
\<close>

theorem bulk_reset_active_counterexample:
  "snd (alloc 100 4 1 (BumpAllocator 4096)) = \<lparr>memory_m = 4096, next_m = 4100, allocations_m = 1\<rparr>
   \<and> allocs 100 [(8, 1)] \<lparr>memory_m = 4096, next_m = 4100, allocations_m = 1\<rparr>
       = Some \<lparr>memory_m = 4096, next_m = 4108, allocations_m = 2\<rparr>
   \<and> remaining_space 100 \<lparr>memory_m = 4096, next_m = 4100, allocations_m = 1\<rparr> = 96
   \<and> remaining_space 100 ((dealloc ^^ 1) \<lparr>memory_m = 4096, next_m = 4108, allocations_m = 2\<rparr>) = 88
   \<and> allocations ((dealloc ^^ 1) \<lparr>memory_m = 4096, next_m = 4108, allocations_m = 2\<rparr>) = 1"
  by (simp add: alloc_def dealloc_def BumpAllocator_def allocations_def remaining_space_def Let_def)

text \<open>
  Claim C3, amended: from every state with \<open>allocationCount() = 0\<close> and the cursor at
  its initial position, \<open>k < 2 ^ 64\<close> successful allocations followed by \<open>k\<close> releases
  leave \<open>remainingSpace()\<close> as it was before the sequence and \<open>allocationCount()\<close> at 0;
  each allocator is back in the very state it started from. The bound on \<open>k\<close> keeps
  the 64-bit counter from wrapping (\<open>counter_wraps\<close>).
\<close>

theorem bulk_reset_from_empty:
  assumes "length reqs < 2 ^ 64"
  shows "(allocations a = 0 \<and> next_m a = memory_m a \<and> allocs N reqs a = Some a' \<longrightarrow>
            remaining_space N ((dealloc ^^ length reqs) a') = remaining_space N a
            \<and> allocations ((dealloc ^^ length reqs) a') = 0
            \<and> (dealloc ^^ length reqs) a' = a)
         \<and> (allocations_m d = 0 \<and> next_m d = memory_m d + N \<and> down_allocs N reqs d = Some d' \<longrightarrow>
            (down_dealloc N ^^ length reqs) d' = d)"
proof (cases "reqs = []")
  case True
  then show ?thesis by auto
next
  case False
  then have pos: "0 < length reqs" by simp
  have up: "(dealloc ^^ length reqs) a' = a"
    if "allocations_m a = 0" "next_m a = memory_m a" "allocs N reqs a = Some a'"
  proof -
    from allocs_state [OF that(3)] that(1)
    have m: "memory_m a' = memory_m a" and c: "unat (allocations_m a') = length reqs"
      using assms by (simp_all add: unat_of_nat64)
    from deallocs_all [OF c pos] m that(1,2) allocs_state [OF that(3)]
    show ?thesis by simp
  qed
  have down: "(down_dealloc N ^^ length reqs) d' = d"
    if "allocations_m d = 0" "next_m d = memory_m d + N" "down_allocs N reqs d = Some d'"
  proof -
    from down_allocs_state [OF that(3)] that(1)
    have m: "memory_m d' = memory_m d" and c: "unat (allocations_m d') = length reqs"
      using assms by (simp_all add: unat_of_nat64)
    from down_deallocs_all [OF c pos] m that(1,2) down_allocs_state [OF that(3)]
    show ?thesis by simp
  qed
  show ?thesis using up down by (auto simp add: allocations_def)
qed

theorem bulk_reset_from_empty_witness:
  "length [(4, 1), (8, 1 :: size_t)] < (2 :: nat) ^ 64
   \<and> allocations (BumpAllocator 4096) = 0
   \<and> next_m (BumpAllocator 4096) = memory_m (BumpAllocator 4096)
   \<and> allocs 100 [(4, 1), (8, 1)] (BumpAllocator 4096)
       = Some \<lparr>memory_m = 4096, next_m = 4108, allocations_m = 2\<rparr>
   \<and> remaining_space 100 \<lparr>memory_m = 4096, next_m = 4108, allocations_m = 2\<rparr> = 88
   \<and> remaining_space 100 ((dealloc ^^ length [(4, 1), (8, 1 :: size_t)]) \<lparr>memory_m = 4096, next_m = 4108, allocations_m = 2\<rparr>) = 100
   \<and> allocations ((dealloc ^^ length [(4, 1), (8, 1 :: size_t)]) \<lparr>memory_m = 4096, next_m = 4108, allocations_m = 2\<rparr>) = 0
   \<and> allocations_m (BumpDownAllocator 100 4096) = 0
   \<and> down_allocs 100 [(4, 1), (8, 1)] (BumpDownAllocator 100 4096)
       = Some \<lparr>memory_m = 4096, next_m = 4184, allocations_m = 2\<rparr>
   \<and> (down_dealloc 100 ^^ length [(4, 1), (8, 1 :: size_t)]) \<lparr>memory_m = 4096, next_m = 4184, allocations_m = 2\<rparr>
       = BumpDownAllocator 100 4096"
  using bulk_reset_from_empty [of "[(4, 1), (8, 1)]" "BumpAllocator 4096" 100
      "\<lparr>memory_m = 4096, next_m = 4108, allocations_m = 2\<rparr>"
      "BumpDownAllocator 100 4096" "\<lparr>memory_m = 4096, next_m = 4184, allocations_m = 2\<rparr>"]
  by (simp add: alloc_def down_alloc_def BumpAllocator_def BumpDownAllocator_def
      allocations_def remaining_space_def Let_def)

subsection \<open>C4: the invariants of the arena\<close>

text \<open>
  Claim C4: in every state reachable from construction the cursor offset lies between 0
  and the capacity, the live count is not negative, and a live count of 0 goes with a
  cursor at its initial position.

  All of it holds along every program of fewer than \<open>2 ^ 64\<close> calls whose requests pass
  the capacity check without wrapping the pointer sum (\<open>run_invariant\<close>). The check
  itself, \<^verbatim>\<open>next_ + size > memory_ + N\<close>, adds before it compares: for
  \<^verbatim>\<open>alloc<char>(SIZE_MAX)\<close> on a fresh 16-byte allocator the sum is one byte below the
  array, the check passes, and the cursor leaves the array: \<open>remaining_space()\<close> is 17,
  above the capacity.
\<close>

theorem alloc_moves_cursor_below_array:
  "alloc 16 1 18446744073709551615 (BumpAllocator 4096)
       = (Some 4096, \<lparr>memory_m = 4096, next_m = 4095, allocations_m = 1\<rparr>)
   \<and> next_m \<lparr>memory_m = 4096, next_m = 4095, allocations_m = 1\<rparr>
       < memory_m \<lparr>memory_m = 4096, next_m = 4095, allocations_m = 1\<rparr>
   \<and> remaining_space 16 \<lparr>memory_m = 4096, next_m = 4095, allocations_m = 1\<rparr> = 17
   \<and> capacity 16 = 16"
  by (simp add: alloc_def BumpAllocator_def remaining_space_def capacity_def Let_def)

subsection \<open>C5: monotonic consumption\<close>

text \<open>
  Claim C5: a successful \<open>allocate(sz, n)\<close> with \<open>sz > 0\<close> and \<open>n \<ge> 1\<close> lowers
  \<open>remainingSpace()\<close> by exactly the mathematical product \<open>sz * n\<close> and raises
  \<open>allocationCount()\<close> by exactly 1.

  For a product below \<open>2 ^ 64\<close> this is \<open>alloc_consumes_product\<close>. Where the product
  wraps, the call takes the wrapped number of bytes:
  \<^verbatim>\<open>alloc<double>(2305843009213693953)\<close> asks for \<open>2 ^ 64 + 8\<close> bytes of a fresh
  100-byte allocator, succeeds, and leaves 92.
\<close>

theorem alloc_consumes_wrapped_product:
  "unat (8 :: size_t) * unat (2 ^ 61 + 1 :: size_t) = 2 ^ 64 + 8
   \<and> remaining_space 100 (BumpAllocator 4096) = 100
   \<and> fst (alloc 100 8 (2 ^ 61 + 1) (BumpAllocator 4096)) = Some 4096
   \<and> remaining_space 100 (snd (alloc 100 8 (2 ^ 61 + 1) (BumpAllocator 4096))) = 92
   \<and> allocations (snd (alloc 100 8 (2 ^ 61 + 1) (BumpAllocator 4096))) = 1"
  by (simp add: alloc_def BumpAllocator_def remaining_space_def allocations_def Let_def)

subsection \<open>C6: directionality\<close>

text \<open>
  Claim C6: in a fresh upward arena the first successful allocation, of length \<open>L\<close>, is
  at offset 0 and the second at offset \<open>L\<close>; in a fresh downward arena of capacity \<open>C\<close>
  the first is at offset \<open>C - L\<close> and the second, of length \<open>M\<close>, at \<open>C - L - M\<close>.
  The lengths are the byte counts \<^verbatim>\<open>sizeof(T) * n\<close> that \<open>alloc\<close> computes, and an offset
  is the returned pointer minus the address of the array, a 64-bit value. Where the
  capacity checks do not wrap, the downward offsets are the differences of the numbers
  (\<open>down_offsets_exact\<close>).
\<close>

theorem alloc_offsets_by_direction:
  "(alloc N s1 n1 (BumpAllocator base) = (Some p1, a1) \<and> alloc N s2 n2 a1 = (Some p2, a2) \<longrightarrow>
      p1 - base = 0 \<and> p2 - base = s1 * n1)
   \<and> (down_alloc N s1 n1 (BumpDownAllocator N base) = (Some q1, d1)
        \<and> down_alloc N s2 n2 d1 = (Some q2, d2) \<longrightarrow>
      q1 - base = N - s1 * n1 \<and> q2 - base = N - s1 * n1 - s2 * n2)"
  by (auto simp add: alloc_def down_alloc_def Let_def BumpAllocator_def BumpDownAllocator_def
      split: if_splits)

theorem alloc_offsets_by_direction_witness:
  "alloc 100 4 1 (BumpAllocator 4096)
       = (Some 4096, \<lparr>memory_m = 4096, next_m = 4100, allocations_m = 1\<rparr>)
   \<and> alloc 100 8 1 \<lparr>memory_m = 4096, next_m = 4100, allocations_m = 1\<rparr>
       = (Some 4100, \<lparr>memory_m = 4096, next_m = 4108, allocations_m = 2\<rparr>)
   \<and> (4096 :: size_t) - 4096 = 0 \<and> (4100 :: size_t) - 4096 = 4 * 1
   \<and> down_alloc 100 4 1 (BumpDownAllocator 100 4096)
       = (Some 4192, \<lparr>memory_m = 4096, next_m = 4192, allocations_m = 1\<rparr>)
   \<and> down_alloc 100 8 1 \<lparr>memory_m = 4096, next_m = 4192, allocations_m = 1\<rparr>
       = (Some 4184, \<lparr>memory_m = 4096, next_m = 4184, allocations_m = 2\<rparr>)
   \<and> (4192 :: size_t) - 4096 = 100 - 4 * 1 \<and> (4184 :: size_t) - 4096 = 100 - 4 * 1 - 8 * 1"
  using alloc_offsets_by_direction [where N = 100 and base = 4096 and ?s1.0 = 4 and ?n1.0 = 1
      and ?s2.0 = 8 and ?n2.0 = 1
      and ?p1.0 = 4096 and ?a1.0 = "\<lparr>memory_m = 4096, next_m = 4100, allocations_m = 1\<rparr>"
      and ?p2.0 = 4100 and ?a2.0 = "\<lparr>memory_m = 4096, next_m = 4108, allocations_m = 2\<rparr>"
      and ?q1.0 = 4192 and ?d1.0 = "\<lparr>memory_m = 4096, next_m = 4192, allocations_m = 1\<rparr>"
      and ?q2.0 = 4184 and ?d2.0 = "\<lparr>memory_m = 4096, next_m = 4184, allocations_m = 2\<rparr>"]
  by (simp add: alloc_def down_alloc_def BumpAllocator_def BumpDownAllocator_def Let_def)

subsection \<open>C7: the two directions offer the same contract\<close>

text \<open>
  Claim C7: both variants offer every operation (construct, allocate, release, capacity,
  remainingSpace, allocationCount) and, for every sequence of calls, give the same
  successes and failures and the same values of the accessors.

  \<^verbatim>\<open>BumpDownAllocator\<close> has a constructor, \<open>alloc\<close> and \<open>dealloc\<close> only. The outcomes
  differ too where the pointer arithmetic of a capacity check wraps: a request of 8192
  bytes fails on a fresh upward 16-byte allocator at address 4096 and succeeds on the
  downward one, whose check \<^verbatim>\<open>next_ - size < memory_\<close> subtracts below address 0.
\<close>

theorem down_lacks_accessors_counterexample:
  "M_remaining_space \<in> set members_BumpAllocator
   \<and> M_remaining_space \<notin> set members_BumpDownAllocator
   \<and> M_capacity \<notin> set members_BumpDownAllocator
   \<and> M_allocations \<notin> set members_BumpDownAllocator
   \<and> fst (alloc 16 1 8192 (BumpAllocator 4096)) = None
   \<and> fst (down_alloc 16 1 8192 (BumpDownAllocator 16 4096)) = Some 18446744073709547536"
  by (simp add: members_BumpAllocator_def members_BumpDownAllocator_def alloc_def down_alloc_def
      BumpAllocator_def BumpDownAllocator_def Let_def)

text \<open>
  Claim C7, amended: the downward arena offers construct, \<open>alloc\<close> and \<open>dealloc\<close>. For
  two arrays inside the address space and every sequence of \<open>alloc\<close> and \<open>dealloc\<close>
  calls whose byte counts are at most the address of the downward array and do not
  reach past the end of the address space from the end of the upward array, both
  variants give the same successes and failures, hold the same allocation counter, and
  the upward \<open>remaining_space()\<close> is the distance of the downward cursor from the low
  end of its array. Only the direction of the cursor and the returned pointers differ.
\<close>

theorem up_down_same_contract:
  assumes "unat bu + unat N < 2 ^ 64" "unat bd + unat N < 2 ^ 64"
    and "list_all (safe_call N bu bd) cs"
  shows "map (\<lambda>r. r = None) (fst (run N cs (BumpAllocator bu)))
           = map (\<lambda>r. r = None) (fst (down_run N cs (BumpDownAllocator N bd)))
         \<and> allocations (snd (run N cs (BumpAllocator bu)))
           = allocations_m (snd (down_run N cs (BumpDownAllocator N bd)))
         \<and> remaining_space N (snd (run N cs (BumpAllocator bu)))
           = next_m (snd (down_run N cs (BumpDownAllocator N bd)))
             - memory_m (snd (down_run N cs (BumpDownAllocator N bd)))"
  using sim_run [OF sim_init [OF assms(1,2)] assms(3)]
  by (simp add: sim_def allocations_def)

theorem up_down_same_contract_witness:
  "unat (4096 :: size_t) + unat (16 :: size_t) < 2 ^ 64
   \<and> unat (8192 :: size_t) + unat (16 :: size_t) < 2 ^ 64
   \<and> list_all (safe_call 16 4096 8192) [Alloc 4 1, Alloc 4 5, Dealloc, Dealloc, Alloc 8 2]
   \<and> map (\<lambda>r. r = None)
         (fst (run 16 [Alloc 4 1, Alloc 4 5, Dealloc, Dealloc, Alloc 8 2] (BumpAllocator 4096)))
       = [False, True, False]
   \<and> map (\<lambda>r. r = None)
         (fst (down_run 16 [Alloc 4 1, Alloc 4 5, Dealloc, Dealloc, Alloc 8 2]
                 (BumpDownAllocator 16 8192)))
       = [False, True, False]
   \<and> allocations (snd (run 16 [Alloc 4 1, Alloc 4 5, Dealloc, Dealloc, Alloc 8 2]
                          (BumpAllocator 4096)))
       = allocations_m (snd (down_run 16 [Alloc 4 1, Alloc 4 5, Dealloc, Dealloc, Alloc 8 2]
                               (BumpDownAllocator 16 8192)))
   \<and> remaining_space 16 (snd (run 16 [Alloc 4 1, Alloc 4 5, Dealloc, Dealloc, Alloc 8 2]
                                (BumpAllocator 4096))) = 0"
  using up_down_same_contract [of 4096 16 8192 "[Alloc 4 1, Alloc 4 5, Dealloc, Dealloc, Alloc 8 2]"]
  by (simp add: up_safe_def down_safe_def alloc_def down_alloc_def dealloc_def down_dealloc_def
      BumpAllocator_def BumpDownAllocator_def remaining_space_def allocations_def Let_def)

subsection \<open>C8: release with no live allocation\<close>

text \<open>
  Claim C8: in every state with \<open>allocationCount() = 0\<close>, \<open>release()\<close> leaves the cursor,
  \<open>remainingSpace()\<close> and \<open>allocationCount()\<close> unchanged and does not fail. \<open>dealloc\<close>
  returns \<^verbatim>\<open>void\<close> and has no failing path, so it is a total function from objects to
  objects; with the counter at zero it returns the object it was given.
\<close>

theorem dealloc_at_zero_is_noop:
  "(allocations a = 0 \<longrightarrow>
      dealloc a = a
      \<and> next_m (dealloc a) = next_m a
      \<and> remaining_space N (dealloc a) = remaining_space N a
      \<and> allocations (dealloc a) = allocations a)
   \<and> (allocations_m d = 0 \<longrightarrow> down_dealloc N d = d)"
  by (simp add: dealloc_def down_dealloc_def allocations_def)

theorem dealloc_at_zero_is_noop_witness:
  "allocations (BumpAllocator 4096) = 0
   \<and> dealloc (BumpAllocator 4096) = BumpAllocator 4096
   \<and> remaining_space 16 (dealloc (BumpAllocator 4096)) = remaining_space 16 (BumpAllocator 4096)
   \<and> allocations_m (BumpDownAllocator 16 4096) = 0
   \<and> down_dealloc 16 (BumpDownAllocator 16 4096) = BumpDownAllocator 16 4096"
  using dealloc_at_zero_is_noop [of "BumpAllocator 4096" 16 "BumpDownAllocator 16 4096"]
  by (simp add: allocations_def BumpAllocator_def BumpDownAllocator_def)

subsection \<open>C9: partial release\<close>

text \<open>
  Claim C9: after \<open>k\<close> successful allocations, each with \<open>elementSize > 0\<close> and
  \<open>count \<ge> 1\<close>, and \<open>j < k\<close> releases, \<open>remainingSpace()\<close> is strictly below its value
  before the sequence and \<open>allocationCount() > 0\<close>.

  This holds when every request takes at least one byte and wraps neither the pointer
  sum nor the counter (\<open>fewer_releases_keep_bytes\<close>). A request whose product wraps to 0
  succeeds and takes no byte: after
  \<^verbatim>\<open>alloc<int>(4611686018427387904)\<close> twice and one \<open>dealloc\<close>, a fresh 16-byte
  allocator still has its 16 bytes.
\<close>

theorem partial_release_nothing_consumed:
  "allocs 16 [(4, 2 ^ 62), (4, 2 ^ 62)] (BumpAllocator 4096)
       = Some \<lparr>memory_m = 4096, next_m = 4096, allocations_m = 2\<rparr>
   \<and> remaining_space 16 (BumpAllocator 4096) = 16
   \<and> remaining_space 16 ((dealloc ^^ 1) \<lparr>memory_m = 4096, next_m = 4096, allocations_m = 2\<rparr>) = 16
   \<and> allocations ((dealloc ^^ 1) \<lparr>memory_m = 4096, next_m = 4096, allocations_m = 2\<rparr>) = 1"
  by (simp add: alloc_def dealloc_def BumpAllocator_def remaining_space_def allocations_def Let_def)

subsection \<open>C10: a request for no element\<close>

text \<open>
  Claim C10: in every arena state with remaining space \<open>r \<ge> 0\<close>, \<open>alloc\<close> with \<open>n = 0\<close>
  succeeds: it returns a non-null pointer at the cursor, adds 1 to the allocation
  counter and leaves the cursor and \<open>remaining_space()\<close> as they were, so that
  \<open>allocations() > 0\<close> while no byte is taken.

  The counter is a \<^verbatim>\<open>size_t\<close>. After \<open>2 ^ 64 - 1\<close> requests for no element a fresh
  16-byte allocator still has its 16 bytes and the counter is \<^verbatim>\<open>SIZE_MAX\<close>; one more
  such request succeeds and leaves the counter at 0. The pointer is the cursor, and it
  is null when the cursor is the address 0: after \<^verbatim>\<open>alloc<char>(18446744073709547520)\<close>,
  whose pointer sum wraps, the cursor of an allocator at address 4096 is 0, and a
  request for no element counts an allocation and returns the null pointer.
\<close>

theorem alloc_zero_count_counterexample:
  "allocs 16 (replicate (2 ^ 64 - 1) (4, 0)) (BumpAllocator 4096)
       = Some \<lparr>memory_m = 4096, next_m = 4096, allocations_m = 18446744073709551615\<rparr>
   \<and> remaining_space 16 \<lparr>memory_m = 4096, next_m = 4096, allocations_m = 18446744073709551615\<rparr> = 16
   \<and> alloc 16 4 0 \<lparr>memory_m = 4096, next_m = 4096, allocations_m = 18446744073709551615\<rparr>
       = (Some 4096, \<lparr>memory_m = 4096, next_m = 4096, allocations_m = 0\<rparr>)
   \<and> allocations \<lparr>memory_m = 4096, next_m = 4096, allocations_m = 0\<rparr> = 0
   \<and> alloc 16 1 18446744073709547520 (BumpAllocator 4096)
       = (Some 4096, \<lparr>memory_m = 4096, next_m = 0, allocations_m = 1\<rparr>)
   \<and> alloc 16 4 0 \<lparr>memory_m = 4096, next_m = 0, allocations_m = 1\<rparr>
       = (Some 0, \<lparr>memory_m = 4096, next_m = 0, allocations_m = 2\<rparr>)
   \<and> returned (Some 0) = 0"
proof -
  have "next_m (BumpAllocator 4096) \<le> memory_m (BumpAllocator 4096) + 16"
    by (simp add: BumpAllocator_def)
  from allocs_of_nothing [OF this, of "2 ^ 64 - 1" 4]
  have "allocs 16 (replicate (2 ^ 64 - 1) (4, 0)) (BumpAllocator 4096)
       = Some \<lparr>memory_m = 4096, next_m = 4096, allocations_m = 18446744073709551615\<rparr>"
    by (simp add: BumpAllocator_def)
  moreover have "remaining_space 16 \<lparr>memory_m = 4096, next_m = 4096, allocations_m = 18446744073709551615\<rparr> = 16"
    by (simp add: remaining_space_def)
  moreover have "alloc 16 4 0 \<lparr>memory_m = 4096, next_m = 4096, allocations_m = 18446744073709551615\<rparr>
       = (Some 4096, \<lparr>memory_m = 4096, next_m = 4096, allocations_m = 0\<rparr>)"
    by (simp add: alloc_def Let_def)
  moreover have "allocations \<lparr>memory_m = 4096, next_m = 4096, allocations_m = 0\<rparr> = 0"
    by (simp add: allocations_def)
  moreover have "alloc 16 1 18446744073709547520 (BumpAllocator 4096)
       = (Some 4096, \<lparr>memory_m = 4096, next_m = 0, allocations_m = 1\<rparr>)"
    by (simp add: alloc_def BumpAllocator_def Let_def)
  moreover have "alloc 16 4 0 \<lparr>memory_m = 4096, next_m = 0, allocations_m = 1\<rparr>
       = (Some 0, \<lparr>memory_m = 4096, next_m = 0, allocations_m = 2\<rparr>)"
    by (simp add: alloc_def Let_def)
  moreover have "returned (Some 0) = 0"
    by (simp add: returned_def)
  ultimately show ?thesis by blast
qed

text \<open>
  Claim C10, amended: in every state whose cursor passes the capacity check of its
  class (\<^verbatim>\<open>next_ <= memory_ + N\<close> upward, \<^verbatim>\<open>memory_ <= next_\<close> downward) and is not the
  null address, and whose counter is below \<^verbatim>\<open>SIZE_MAX\<close>, \<open>alloc\<close> with \<open>n = 0\<close>
  succeeds: it returns the cursor, a non-null pointer, adds exactly 1 to the allocation
  counter and leaves the cursor and \<open>remaining_space()\<close> as they were, so that
  \<open>allocations() > 0\<close> while no byte is taken.
\<close>

theorem alloc_of_no_element:
  "(next_m a \<le> memory_m a + N \<and> next_m a \<noteq> 0 \<and> allocations a \<noteq> - 1 \<longrightarrow>
      alloc N sizeof_T 0 a = (Some (next_m a), a\<lparr>allocations_m := allocations_m a + 1\<rparr>)
      \<and> returned (fst (alloc N sizeof_T 0 a)) = next_m a
      \<and> returned (fst (alloc N sizeof_T 0 a)) \<noteq> 0
      \<and> next_m (snd (alloc N sizeof_T 0 a)) = next_m a
      \<and> remaining_space N (snd (alloc N sizeof_T 0 a)) = remaining_space N a
      \<and> unat (allocations (snd (alloc N sizeof_T 0 a))) = unat (allocations a) + 1
      \<and> 0 < allocations (snd (alloc N sizeof_T 0 a)))
   \<and> (memory_m d \<le> next_m d \<and> next_m d \<noteq> 0 \<and> allocations_m d \<noteq> - 1 \<longrightarrow>
      down_alloc N sizeof_T 0 d = (Some (next_m d), d\<lparr>allocations_m := allocations_m d + 1\<rparr>)
      \<and> returned (fst (down_alloc N sizeof_T 0 d)) = next_m d
      \<and> returned (fst (down_alloc N sizeof_T 0 d)) \<noteq> 0
      \<and> next_m (snd (down_alloc N sizeof_T 0 d)) = next_m d
      \<and> unat (allocations_m (snd (down_alloc N sizeof_T 0 d))) = unat (allocations_m d) + 1
      \<and> 0 < allocations_m (snd (down_alloc N sizeof_T 0 d)))"
  by (auto simp add: alloc_def down_alloc_def Let_def remaining_space_def allocations_def
      returned_def counter_incr word_neq_0_conv [symmetric] eq_neg_iff_add_eq_0)

theorem alloc_of_no_element_witness:
  "next_m (BumpAllocator 4096) \<le> memory_m (BumpAllocator 4096) + 16
   \<and> next_m (BumpAllocator 4096) \<noteq> 0
   \<and> allocations (BumpAllocator 4096) \<noteq> - 1
   \<and> alloc 16 4 0 (BumpAllocator 4096)
       = (Some 4096, \<lparr>memory_m = 4096, next_m = 4096, allocations_m = 1\<rparr>)
   \<and> returned (fst (alloc 16 4 0 (BumpAllocator 4096))) = 4096
   \<and> remaining_space 16 (snd (alloc 16 4 0 (BumpAllocator 4096))) = 16
   \<and> 0 < allocations (snd (alloc 16 4 0 (BumpAllocator 4096)))
   \<and> memory_m (BumpDownAllocator 16 4096) \<le> next_m (BumpDownAllocator 16 4096)
   \<and> next_m (BumpDownAllocator 16 4096) \<noteq> 0
   \<and> allocations_m (BumpDownAllocator 16 4096) \<noteq> - 1
   \<and> down_alloc 16 4 0 (BumpDownAllocator 16 4096)
       = (Some 4112, \<lparr>memory_m = 4096, next_m = 4112, allocations_m = 1\<rparr>)
   \<and> returned (fst (down_alloc 16 4 0 (BumpDownAllocator 16 4096))) = 4112
   \<and> 0 < allocations_m (snd (down_alloc 16 4 0 (BumpDownAllocator 16 4096)))"
  using alloc_of_no_element [of "BumpAllocator 4096" 16 4 "BumpDownAllocator 16 4096"]
  by (simp add: BumpAllocator_def BumpDownAllocator_def allocations_def remaining_space_def
      returned_def)

end
